theory Spec2Isabelle
  imports Complex_Main "HOL-Library.Word"
begin

section \<open>Machine types and exceptions\<close>

text \<open>
  The binding layer of \<^verbatim>\<open>src/samplerate_nb.cpp\<close> is modelled on an LP64 platform:
  \<^verbatim>\<open>int\<close> is a 32-bit word read with \<open>sint\<close>, \<^verbatim>\<open>long\<close> and \<^verbatim>\<open>size_t\<close> are 64-bit words.
  A \<^verbatim>\<open>double\<close> ratio is only stored and handed on by the modelled paths, so it is a
  \<open>real\<close>. Sample data is opaque to the binding layer (it reaches the engine through a
  pointer), so an array is modelled by its shape vector.
\<close>

type_synonym cint = "32 word"
type_synonym clong = "64 word"
type_synonym size_t = "64 word"
type_synonym double = real

text \<open>
  The C++ exceptions the layer throws. \<open>ResamplingException\<close> is the spec's
  ConversionFailed, \<^verbatim>\<open>std::runtime_error\<close> its FatalEngineContract, and
  \<^verbatim>\<open>std::domain_error\<close> its InvalidConverter, InvalidShape and CallbackError.
  \<open>Cast_error\<close> is the failure of \<^verbatim>\<open>nb::cast<int>\<close> on a Python integer outside the
  range of \<^verbatim>\<open>int\<close>; \<open>Shape_read_out_of_range\<close> marks the read of \<^verbatim>\<open>shape(0)\<close> on a
  rank-0 array, which the source performs unchecked.
\<close>

datatype exn =
    ResamplingException string
  | Runtime_error string
  | Domain_error string
  | Cast_error
  | Shape_read_out_of_range

section \<open>Error translation\<close>

text \<open>
  \<^verbatim>\<open>error_handler\<close> (lines 99-107). The message table \<^verbatim>\<open>src_strerror\<close> belongs to
  libsamplerate and is a parameter; the constructor of \<open>ResamplingException\<close> is the
  only place that consults it.
\<close>

definition error_handler :: "(cint \<Rightarrow> string) \<Rightarrow> cint \<Rightarrow> exn + unit" where
  "error_handler src_strerror errnum =
     (if 0 < sint errnum \<and> sint errnum < 24 then Inl (ResamplingException (src_strerror errnum))
      else if errnum \<noteq> 0 then Inl (Runtime_error ''libsamplerate raised an unknown error code'')
      else Inr ())"

text \<open>A stand-in message table for closed examples.\<close>

definition stub_strerror :: "cint \<Rightarrow> string" where
  "stub_strerror e = (if e = 23 then ''Placeholder. No error defined for this error number.''
                      else ''Error reported by the engine.'')"

section \<open>Converter selection\<close>

datatype ConverterType = sinc_best | sinc_medium | sinc_fastest | zero_order_hold | linear

text \<open>The Python objects \<^verbatim>\<open>get_converter_type\<close> distinguishes.\<close>

datatype py_object = PyStr string | PyInt int | PyConverterType ConverterType | PyOther

fun ConverterType_value :: "ConverterType \<Rightarrow> cint" where
  "ConverterType_value sinc_best = 0"
| "ConverterType_value sinc_medium = 1"
| "ConverterType_value sinc_fastest = 2"
| "ConverterType_value zero_order_hold = 3"
| "ConverterType_value linear = 4"

definition nb_cast_int :: "int \<Rightarrow> exn + cint" where
  "nb_cast_int i = (if - (2 ^ 31) \<le> i \<and> i < 2 ^ 31 then Inr (word_of_int i) else Inl Cast_error)"

definition get_converter_type :: "py_object \<Rightarrow> exn + cint" where
  "get_converter_type obj =
     (case obj of
        PyStr s \<Rightarrow>
          (if s = ''sinc_best'' then Inr 0
           else if s = ''sinc_medium'' then Inr 1
           else if s = ''sinc_fastest'' then Inr 2
           else if s = ''zero_order_hold'' then Inr 3
           else if s = ''linear'' then Inr 4
           else Inl (Domain_error ''Unsupported converter type''))
      | PyInt i \<Rightarrow> nb_cast_int i
      | PyConverterType c \<Rightarrow> Inr (ConverterType_value c)
      | PyOther \<Rightarrow> Inl (Domain_error ''Unsupported converter type''))"

section \<open>Arrays and the conversion engine\<close>

datatype ndarray = NDArray (nd_shape: "size_t list")

definition ndim :: "ndarray \<Rightarrow> nat" where
  "ndim a = length (nd_shape a)"

text \<open>\<^verbatim>\<open>SRC_DATA\<close> without its two data pointers.\<close>

record SRC_DATA =
  input_frames :: clong
  output_frames :: clong
  input_frames_used :: clong
  output_frames_gen :: clong
  end_of_input :: cint
  src_ratio :: double

text \<open>A \<^verbatim>\<open>SRC_STATE *\<close> is an opaque handle or \<open>None\<close> for \<^verbatim>\<open>nullptr\<close>.\<close>

type_synonym SRC_STATE = nat

text \<open>
  One pull-mode read of the engine, as the binding layer sees it: the engine asks the
  bridge for input any number of times (\<open>Pull\<close>, continuing with the frame count the
  bridge returned) and then returns the number of frames it generated together with
  its new state (\<open>Done\<close>). A read that the engine never returns from is outside the
  model.
\<close>

datatype 'w pull = Done clong 'w | Pull "clong \<Rightarrow> 'w pull"

text \<open>
  libsamplerate is not part of the repository: its entry points are the fields of a
  record, over an arbitrary engine state \<open>'w\<close>. Every theorem below holds for every
  engine.
\<close>

record 'w engine =
  src_strerror :: "cint \<Rightarrow> string"
  src_simple :: "SRC_DATA \<Rightarrow> cint \<Rightarrow> cint \<Rightarrow> 'w \<Rightarrow> cint \<times> SRC_DATA \<times> 'w"
  src_process :: "SRC_STATE option \<Rightarrow> SRC_DATA \<Rightarrow> 'w \<Rightarrow> cint \<times> SRC_DATA \<times> 'w"
  src_callback_new :: "cint \<Rightarrow> cint \<Rightarrow> 'w \<Rightarrow> SRC_STATE option \<times> cint \<times> 'w"
  src_callback_read :: "SRC_STATE option \<Rightarrow> double \<Rightarrow> clong \<Rightarrow> 'w \<Rightarrow> 'w pull"
  src_error :: "SRC_STATE option \<Rightarrow> 'w \<Rightarrow> cint"
  src_set_ratio :: "SRC_STATE option \<Rightarrow> double \<Rightarrow> 'w \<Rightarrow> cint \<times> 'w"
  src_reset :: "SRC_STATE option \<Rightarrow> 'w \<Rightarrow> cint \<times> 'w"
  src_delete :: "SRC_STATE \<Rightarrow> 'w \<Rightarrow> 'w"

section \<open>Output capacity\<close>

definition END_OF_INPUT_EXTRA_OUTPUT_FRAMES :: size_t where
  "END_OF_INPUT_EXTRA_OUTPUT_FRAMES = 10000"

text \<open>
  \<^verbatim>\<open>new_size\<close> (lines 136-138 and 281-283). Its first summand,
  \<^verbatim>\<open>static_cast<size_t>(std::ceil(num_frames * sr_ratio))\<close>, is computed in double
  precision and converted back; that computation is the parameter \<open>ceil_mul\<close>. The sum
  is a \<^verbatim>\<open>size_t\<close> and wraps.
\<close>

definition new_size :: "(size_t \<Rightarrow> double \<Rightarrow> size_t) \<Rightarrow> size_t \<Rightarrow> double \<Rightarrow> size_t" where
  "new_size ceil_mul num_frames sr_ratio =
     ceil_mul num_frames sr_ratio + END_OF_INPUT_EXTRA_OUTPUT_FRAMES"

text \<open>The same computation in exact arithmetic, for closed examples.\<close>

definition exact_ceil_mul :: "size_t \<Rightarrow> double \<Rightarrow> size_t" where
  "exact_ceil_mul n r = word_of_int \<lceil>real (unat n) * r\<rceil>"

section \<open>Bulk conversion and the incremental session\<close>

text \<open>
  \<^verbatim>\<open>resample\<close> (lines 109-217) and \<^verbatim>\<open>Resampler::process\<close> (lines 256-351). The
  allocation of the output buffer is assumed to succeed, and the diagnostics printed
  under \<^verbatim>\<open>verbose\<close> are left out. The engine state is passed in and returned, so that
  a call that never reaches the engine returns it unchanged.
\<close>

text \<open>
  "Set the number of channels" (lines 121-127 and 266-270): the second extent of a
  rank-2 input, narrowed to \<^verbatim>\<open>int\<close>; 1 for a rank-1 input; a rank above 2 is refused.
\<close>

definition input_channels :: "ndarray \<Rightarrow> exn + cint" where
  "input_channels input =
     (if ndim input = 2 then Inr (ucast (nd_shape input ! 1))
      else if ndim input > 2 then Inl (Domain_error ''Input array should have at most 2 dimensions'')
      else Inr 1)"

text \<open>
  The initialiser of \<^verbatim>\<open>src_data\<close> (lines 150-159 and 295-304): the frame counts are
  converted to \<^verbatim>\<open>long\<close>, the two counters the engine fills start at 0.
\<close>

definition make_src_data :: "size_t \<Rightarrow> size_t \<Rightarrow> cint \<Rightarrow> double \<Rightarrow> SRC_DATA" where
  "make_src_data num_frames out_frames eoi sr_ratio =
     \<lparr>input_frames = num_frames, output_frames = out_frames,
      input_frames_used = 0, output_frames_gen = 0,
      end_of_input = eoi, src_ratio = sr_ratio\<rparr>"

text \<open>The result array (lines 188-216 and 322-350); \<^verbatim>\<open>channels\<close> widens to \<^verbatim>\<open>size_t\<close>.\<close>

definition output_array :: "nat \<Rightarrow> clong \<Rightarrow> cint \<Rightarrow> ndarray" where
  "output_array nd frames_gen channels =
     (if nd = 2 then NDArray [frames_gen, scast channels] else NDArray [frames_gen])"

definition resample ::
  "(size_t \<Rightarrow> double \<Rightarrow> size_t) \<Rightarrow> 'w engine \<Rightarrow> ndarray \<Rightarrow> double \<Rightarrow> py_object \<Rightarrow> 'w
     \<Rightarrow> (exn + ndarray) \<times> 'w" where
  "resample ceil_mul eng input sr_ratio converter_type w =
     (case get_converter_type converter_type of
        Inl e \<Rightarrow> (Inl e, w)
      | Inr converter_type_int \<Rightarrow>
     (case nd_shape input of
        [] \<Rightarrow> (Inl Shape_read_out_of_range, w)
      | num_frames # _ \<Rightarrow>
     (case input_channels input of
        Inl e \<Rightarrow> (Inl e, w)
      | Inr channels \<Rightarrow>
          if channels = 0
          then (Inl (Domain_error ''Invalid number of channels (0) in input data.''), w)
          else
            let new_size' = new_size ceil_mul num_frames sr_ratio;
                src_data = make_src_data num_frames new_size' 0 sr_ratio;
                (err_code, src_data', w') = src_simple eng src_data converter_type_int channels w
            in case error_handler (src_strerror eng) err_code of
                 Inl e \<Rightarrow> (Inl e, w')
               | Inr _ \<Rightarrow>
                   if output_frames_gen src_data' > new_size'
                   then (Inl (Runtime_error ''Generated more output samples than expected!''), w')
                   else (Inr (output_array (ndim input) (output_frames_gen src_data') channels), w'))))"

record Resampler =
  rs_state :: "SRC_STATE option"
  rs_converter_type :: cint
  rs_channels :: cint

definition Resampler_process ::
  "(size_t \<Rightarrow> double \<Rightarrow> size_t) \<Rightarrow> 'w engine \<Rightarrow> Resampler \<Rightarrow> ndarray \<Rightarrow> double \<Rightarrow> bool \<Rightarrow> 'w
     \<Rightarrow> (exn + ndarray) \<times> 'w" where
  "Resampler_process ceil_mul eng self input sr_ratio eoi w =
     (case nd_shape input of
        [] \<Rightarrow> (Inl Shape_read_out_of_range, w)
      | num_frames # _ \<Rightarrow>
     (case input_channels input of
        Inl e \<Rightarrow> (Inl e, w)
      | Inr channels \<Rightarrow>
          if channels \<noteq> rs_channels self \<or> channels = 0
          then (Inl (Domain_error ''Invalid number of channels in input data.''), w)
          else
            let new_size' = new_size ceil_mul num_frames sr_ratio;
                src_data = make_src_data num_frames new_size' (if eoi then 1 else 0) sr_ratio;
                (err_code, src_data', w') = src_process eng (rs_state self) src_data w
            in case error_handler (src_strerror eng) err_code of
                 Inl e \<Rightarrow> (Inl e, w')
               | Inr _ \<Rightarrow>
                   if output_frames_gen src_data' > new_size'
                   then (Inl (Runtime_error ''Generated more output samples than expected!''), w')
                   else (Inr (output_array (ndim input) (output_frames_gen src_data') channels), w')))"

section \<open>The callback session\<close>

text \<open>
  What the producer returns: \<^verbatim>\<open>None\<close> or an array. The producer is a Python callable
  with its own state; it is modelled by the sequence of its return values, and the
  session counts the calls made so far (\<open>cb_calls\<close>).
\<close>

datatype py_input = PyNone | PyArray ndarray

record CallbackResampler =
  cb_state :: "SRC_STATE option"
  cb_callback :: "nat \<Rightarrow> py_input"
  cb_calls :: nat
  cb_current_buffer :: ndarray
  cb_buffer_ndim :: nat
  cb_callback_error_msg :: string
  cb_ratio :: double
  cb_converter_type :: cint
  cb_channels :: size_t

definition set_callback_error :: "string \<Rightarrow> CallbackResampler \<Rightarrow> CallbackResampler" where
  "set_callback_error error_msg self = self\<lparr>cb_callback_error_msg := error_msg\<rparr>"

definition clear_callback_error :: "CallbackResampler \<Rightarrow> CallbackResampler" where
  "clear_callback_error self = self\<lparr>cb_callback_error_msg := []\<rparr>"

text \<open>\<^verbatim>\<open>_create\<close> (lines 382-387).\<close>

definition CallbackResampler_create ::
  "'w engine \<Rightarrow> CallbackResampler \<Rightarrow> 'w \<Rightarrow> (exn + unit) \<times> CallbackResampler \<times> 'w" where
  "CallbackResampler_create eng self w =
     (let (st, err_num, w') =
            src_callback_new eng (cb_converter_type self) (ucast (cb_channels self)) w;
          self' = self\<lparr>cb_state := st\<rparr>
      in if st = None then (error_handler (src_strerror eng) err_num, self', w')
         else (Inr (), self', w'))"

text \<open>\<^verbatim>\<open>_destroy\<close> (lines 389-394) and \<^verbatim>\<open>__exit__\<close>, \<^verbatim>\<open>__enter__\<close> (lines 545-550).\<close>

definition CallbackResampler_destroy ::
  "'w engine \<Rightarrow> CallbackResampler \<Rightarrow> 'w \<Rightarrow> CallbackResampler \<times> 'w" where
  "CallbackResampler_destroy eng self w =
     (case cb_state self of
        Some st \<Rightarrow> (self\<lparr>cb_state := None\<rparr>, src_delete eng st w)
      | None \<Rightarrow> (self, w))"

definition CallbackResampler_exit ::
  "'w engine \<Rightarrow> CallbackResampler \<Rightarrow> 'w \<Rightarrow> CallbackResampler \<times> 'w" where
  "CallbackResampler_exit eng self w = CallbackResampler_destroy eng self w"


text \<open>The constructor (lines 397-404).\<close>

definition CallbackResampler_new ::
  "'w engine \<Rightarrow> (nat \<Rightarrow> py_input) \<Rightarrow> double \<Rightarrow> py_object \<Rightarrow> size_t \<Rightarrow> 'w
     \<Rightarrow> (exn + CallbackResampler) \<times> 'w" where
  "CallbackResampler_new eng callback_func ratio converter_type channels w =
     (case get_converter_type converter_type of
        Inl e \<Rightarrow> (Inl e, w)
      | Inr ct \<Rightarrow>
          let self = \<lparr>cb_state = None, cb_callback = callback_func, cb_calls = 0,
                      cb_current_buffer = NDArray [], cb_buffer_ndim = 0,
                      cb_callback_error_msg = [], cb_ratio = ratio,
                      cb_converter_type = ct, cb_channels = channels\<rparr>;
              (r, self', w') = CallbackResampler_create eng self w
          in case r of Inl e \<Rightarrow> (Inl e, w') | Inr _ \<Rightarrow> (Inr self', w'))"

text \<open>\<^verbatim>\<open>callback\<close> (lines 446-462).\<close>

definition callback :: "CallbackResampler \<Rightarrow> ndarray \<times> CallbackResampler" where
  "callback self =
     (let input_obj = cb_callback self (cb_calls self);
          self1 = self\<lparr>cb_calls := Suc (cb_calls self)\<rparr>
      in case input_obj of
           PyNone \<Rightarrow> (NDArray [], self1)
         | PyArray input \<Rightarrow>
             let self2 = (if ndim input > 0 \<and> cb_buffer_ndim self1 = 0
                          then self1\<lparr>cb_buffer_ndim := ndim input\<rparr> else self1)
             in (input, self2\<lparr>cb_current_buffer := input\<rparr>))"

text \<open>
  \<^verbatim>\<open>the_callback_func\<close> (lines 555-596), the bridge the engine calls: the number of
  frames made available and the session afterwards.
\<close>

definition the_callback_func :: "CallbackResampler \<Rightarrow> clong \<times> CallbackResampler" where
  "the_callback_func cb =
     (let channels_int = (ucast (cb_channels cb) :: cint);
          (input, cb1) = callback cb
      in if ndim input = 0 then (0, cb1)
         else
           let num_frames = hd (nd_shape input)
           in if ndim input \<noteq> 2 \<and> ndim input > 2
              then (0, set_callback_error ''Input array should have at most 2 dimensions'' cb1)
              else
                let num_channels = (if ndim input = 2 then nd_shape input ! 1 else 1)
                in if (ucast num_channels :: cint) \<noteq> channels_int \<or> num_channels = 0
                   then (0, set_callback_error ''Invalid number of channels in input data.'' cb1)
                   else (num_frames, cb1))"

text \<open>The engine's pull-mode read, with every request for input served by the bridge.\<close>

primrec run_pull :: "'w pull \<Rightarrow> CallbackResampler \<Rightarrow> clong \<times> 'w \<times> CallbackResampler" where
  "run_pull (Done n w) cb = (n, w, cb)"
| "run_pull (Pull k) cb = (let (n, cb') = the_callback_func cb in run_pull (k n) cb')"

text \<open>
  Whether the bridge stored a deferred error at some request of the run: the error slot
  changed. (A \<^verbatim>\<open>read\<close> empties the slot before the engine runs and both messages of the
  bridge are non-empty, so the first store of a run always changes it.)
\<close>

primrec bridge_recorded :: "'w pull \<Rightarrow> CallbackResampler \<Rightarrow> bool" where
  "bridge_recorded (Done n w) cb = False"
| "bridge_recorded (Pull k) cb =
     (let (n, cb') = the_callback_func cb
      in cb_callback_error_msg cb' \<noteq> cb_callback_error_msg cb \<or> bridge_recorded (k n) cb')"

text \<open>\<^verbatim>\<open>read\<close> (lines 464-535). The allocation of the output buffer is assumed to succeed.\<close>

definition read_body ::
  "'w engine \<Rightarrow> size_t \<Rightarrow> CallbackResampler \<Rightarrow> 'w \<Rightarrow> (exn + ndarray) \<times> CallbackResampler \<times> 'w" where
  "read_body eng frames self w =
     (let self1 = clear_callback_error self;
          (gen, w', self2) =
             run_pull (src_callback_read eng (cb_state self1) (cb_ratio self1) frames w) self1;
          err_code = (if gen = 0 then src_error eng (cb_state self2) w' else 0)
      in if cb_callback_error_msg self2 \<noteq> []
         then (Inl (Domain_error (cb_callback_error_msg self2)), self2, w')
         else
           case (if gen = 0 then error_handler (src_strerror eng) err_code else Inr ()) of
             Inl e \<Rightarrow> (Inl e, self2, w')
           | Inr _ \<Rightarrow>
               if cb_channels self2 = 1 \<and> cb_buffer_ndim self2 = 1
               then (Inr (NDArray [gen]), self2, w')
               else (Inr (NDArray [gen, cb_channels self2]), self2, w'))"

text \<open>Line 474, \<^verbatim>\<open>if (_state == nullptr) _create();\<close>, the first step of \<^verbatim>\<open>read\<close>.\<close>

definition reopen ::
  "'w engine \<Rightarrow> CallbackResampler \<Rightarrow> 'w \<Rightarrow> (exn + unit) \<times> CallbackResampler \<times> 'w" where
  "reopen eng self w =
     (if cb_state self = None then CallbackResampler_create eng self w else (Inr (), self, w))"

definition CallbackResampler_read ::
  "'w engine \<Rightarrow> size_t \<Rightarrow> CallbackResampler \<Rightarrow> 'w \<Rightarrow> (exn + ndarray) \<times> CallbackResampler \<times> 'w" where
  "CallbackResampler_read eng frames self w =
     (let (r, self', w') = reopen eng self w
      in case r of
           Inl e \<Rightarrow> (Inl e, self', w')
         | Inr _ \<Rightarrow> read_body eng frames self' w')"

text \<open>\<^verbatim>\<open>set_starting_ratio\<close> (lines 537-540) and \<^verbatim>\<open>reset\<close> (line 542).\<close>

definition CallbackResampler_set_starting_ratio ::
  "'w engine \<Rightarrow> double \<Rightarrow> CallbackResampler \<Rightarrow> 'w \<Rightarrow> (exn + unit) \<times> CallbackResampler \<times> 'w" where
  "CallbackResampler_set_starting_ratio eng new_ratio self w =
     (let (err, w') = src_set_ratio eng (cb_state self) new_ratio w
      in case error_handler (src_strerror eng) err of
           Inl e \<Rightarrow> (Inl e, self, w')
         | Inr _ \<Rightarrow> (Inr (), self\<lparr>cb_ratio := new_ratio\<rparr>, w'))"


section \<open>Clients of a callback session\<close>





section \<open>Test engines\<close>

text \<open>
  A spy engine for closed examples. Its state counts the calls made to it; bulk and
  incremental conversion answer with the given status and frame count; a pull-mode
  read asks the bridge once and reports the frames it was given, capped at the
  request.
\<close>

definition spy_engine :: "cint \<Rightarrow> clong \<Rightarrow> nat engine" where
  "spy_engine err gen =
     \<lparr>src_strerror = stub_strerror,
      src_simple = (\<lambda>d ct ch w. (err, d\<lparr>output_frames_gen := gen\<rparr>, Suc w)),
      src_process = (\<lambda>st d w. (err, d\<lparr>output_frames_gen := gen\<rparr>, Suc w)),
      src_callback_new = (\<lambda>ct ch w. (Some w, 0, Suc w)),
      src_callback_read =
        (\<lambda>st r frames w. Pull (\<lambda>n. Done (if n \<le> frames then n else frames) (Suc w))),
      src_error = (\<lambda>st w. err),
      src_set_ratio = (\<lambda>st r w. (err, Suc w)),
      src_reset = (\<lambda>st w. (err, Suc w)),
      src_delete = (\<lambda>st w. Suc w)\<rparr>"

definition mono_resampler :: Resampler where
  "mono_resampler = \<lparr>rs_state = Some 0, rs_converter_type = 0, rs_channels = 1\<rparr>"

text \<open>An engine that creates a handle on its very first call only.\<close>

definition flaky_engine :: "nat engine" where
  "flaky_engine = (spy_engine 0 0)
     \<lparr>src_callback_new := (\<lambda>ct ch w. if w = 0 then (Some 0, 0, Suc w) else (None, 1, Suc w))\<rparr>"

text \<open>An engine whose pull-mode read asks the bridge twice and reports the first count.\<close>

definition pull_twice_engine :: "nat engine" where
  "pull_twice_engine = (spy_engine 0 0)
     \<lparr>src_callback_read := (\<lambda>st r frames w. Pull (\<lambda>n1. Pull (\<lambda>n2. Done n1 (Suc w))))\<rparr>"

text \<open>Producers for closed examples.\<close>

definition none_then_mono :: "nat \<Rightarrow> py_input" where
  "none_then_mono i = (if i = 0 then PyNone else PyArray (NDArray [5]))"



definition wide_chunks :: "nat \<Rightarrow> py_input" where
  "wide_chunks i = PyArray (NDArray [0, 4294967297])"

definition mono_session :: "(nat \<Rightarrow> py_input) \<Rightarrow> CallbackResampler" where
  "mono_session producer =
     \<lparr>cb_state = Some 0, cb_callback = producer, cb_calls = 0,
      cb_current_buffer = NDArray [], cb_buffer_ndim = 0, cb_callback_error_msg = [],
      cb_ratio = 1, cb_converter_type = 0, cb_channels = 1\<rparr>"

section \<open>Theorems: error translation\<close>

lemma error_handler_zero: "error_handler f 0 = Inr ()"
  by (simp add: error_handler_def)

lemma error_handler_known:
  "0 < sint e \<Longrightarrow> sint e < 24 \<Longrightarrow> error_handler f e = Inl (ResamplingException (f e))"
  by (simp add: error_handler_def)

lemma error_handler_unknown:
  "e \<noteq> 0 \<Longrightarrow> \<not> (0 < sint e \<and> sint e < 24) \<Longrightarrow>
   error_handler f e = Inl (Runtime_error ''libsamplerate raised an unknown error code'')"
  by (simp add: error_handler_def)

lemma error_handler_Inr_iff: "error_handler f e = Inr u \<longleftrightarrow> e = 0"
  by (auto simp: error_handler_def)

text \<open>
  C1 (as stated, refuted). The claim puts code 23 among the unknown codes. The guard of
  \<^verbatim>\<open>error_handler\<close> is \<^verbatim>\<open>errnum < 24\<close>: code 23 is translated to a
  \<open>ResamplingException\<close> whose message is read from the engine's table, not to the
  \<^verbatim>\<open>std::runtime_error\<close> for unknown codes.
\<close>

theorem C1_code_23_counterexample:
  "error_handler stub_strerror 23 =
     Inl (ResamplingException ''Placeholder. No error defined for this error number.'') \<and>
   error_handler stub_strerror 23 \<noteq>
     Inl (Runtime_error ''libsamplerate raised an unknown error code'')"
  by (simp add: error_handler_def stub_strerror_def)

text \<open>
  C1 (amended). Code 0 is success; every code from 1 to 23 inclusive gives a
  \<open>ResamplingException\<close> carrying the engine's text for that code; every other non-zero
  code (24 and above, and every negative code) gives the \<^verbatim>\<open>std::runtime_error\<close>
  "libsamplerate raised an unknown error code", and the outcome is the same whatever
  the message table is, so the table is not consulted for such a code.
\<close>

theorem C1_error_handler_contract:
  "error_handler f 0 = Inr () \<and>
   (1 \<le> sint e \<and> sint e \<le> 23 \<longrightarrow> error_handler f e = Inl (ResamplingException (f e))) \<and>
   (e \<noteq> 0 \<and> (sint e < 1 \<or> 23 < sint e) \<longrightarrow>
      error_handler f e = Inl (Runtime_error ''libsamplerate raised an unknown error code'') \<and>
      error_handler g e = error_handler f e)"
  by (auto simp: error_handler_def)

text \<open>C1, witness: codes 22, 24 and -1 on the stand-in table.\<close>

theorem C1_error_handler_contract_witness:
  "error_handler stub_strerror 0 = Inr () \<and>
   error_handler stub_strerror 22 = Inl (ResamplingException ''Error reported by the engine.'') \<and>
   error_handler stub_strerror 24 =
     Inl (Runtime_error ''libsamplerate raised an unknown error code'') \<and>
   error_handler stub_strerror (- 1) =
     Inl (Runtime_error ''libsamplerate raised an unknown error code'') \<and>
   error_handler (\<lambda>_. []) 24 = error_handler stub_strerror 24"
  using C1_error_handler_contract [of stub_strerror 22 stub_strerror]
        C1_error_handler_contract [of stub_strerror 24 "\<lambda>_. []"]
        C1_error_handler_contract [of stub_strerror "- 1" "\<lambda>_. []"]
  by (simp add: stub_strerror_def)

section \<open>Theorems: bulk conversion and incremental process\<close>

lemma signed_gt_imp_unsigned_gt:
  fixes g c :: "64 word"
  assumes "uint c < sint g"
  shows "c < g"
proof -
  have nonneg: "0 \<le> sint g" using assms uint_ge_0 [of c] by linarith
  have "sint g < 2 ^ 64" using sint_lt [of g] by simp
  with nonneg have "uint g = sint g"
    by (simp add: uint_sint take_bit_int_eq_self)
  with assms show ?thesis by (simp add: word_less_def)
qed

lemma Resampler_process_engine_answer:
  assumes "nd_shape input = n # rest"
    and "input_channels input = Inr (rs_channels self)"
    and "rs_channels self \<noteq> 0"
    and "src_process eng (rs_state self)
           (make_src_data n (new_size cm n r) (if eoi then 1 else 0) r) w = (err, d', w')"
  shows "Resampler_process cm eng self input r eoi w =
      (case error_handler (src_strerror eng) err of
         Inl e \<Rightarrow> (Inl e, w')
       | Inr _ \<Rightarrow>
           if output_frames_gen d' > new_size cm n r
           then (Inl (Runtime_error ''Generated more output samples than expected!''), w')
           else (Inr (output_array (ndim input) (output_frames_gen d') (rs_channels self)), w'))"
  using assms by (auto simp: Resampler_process_def Let_def split: sum.splits)

lemma resample_engine_answer:
  assumes "get_converter_type conv = Inr ct"
    and "nd_shape input = n # rest"
    and "input_channels input = Inr ch"
    and "ch \<noteq> 0"
    and "src_simple eng (make_src_data n (new_size cm n r) 0 r) ct ch w = (err, d', w')"
  shows "resample cm eng input r conv w =
      (case error_handler (src_strerror eng) err of
         Inl e \<Rightarrow> (Inl e, w')
       | Inr _ \<Rightarrow>
           if output_frames_gen d' > new_size cm n r
           then (Inl (Runtime_error ''Generated more output samples than expected!''), w')
           else (Inr (output_array (ndim input) (output_frames_gen d') ch), w'))"
  using assms by (auto simp: resample_def Let_def split: sum.splits)

lemma Resampler_process_overflow:
  assumes "nd_shape input = n # rest"
    and "input_channels input = Inr (rs_channels self)"
    and "rs_channels self \<noteq> 0"
    and "src_process eng (rs_state self)
           (make_src_data n (new_size cm n r) (if eoi then 1 else 0) r) w = (0, d', w')"
    and "uint (new_size cm n r) < sint (output_frames_gen d')"
  shows "Resampler_process cm eng self input r eoi w =
           (Inl (Runtime_error ''Generated more output samples than expected!''), w')"
proof -
  have "new_size cm n r < output_frames_gen d'"
    using assms(5) by (rule signed_gt_imp_unsigned_gt)
  then show ?thesis
    using Resampler_process_engine_answer [OF assms(1-4)] by (simp add: error_handler_zero)
qed

lemma resample_overflow:
  assumes "get_converter_type conv = Inr ct"
    and "nd_shape input = n # rest"
    and "input_channels input = Inr ch"
    and "ch \<noteq> 0"
    and "src_simple eng (make_src_data n (new_size cm n r) 0 r) ct ch w = (0, d', w')"
    and "uint (new_size cm n r) < sint (output_frames_gen d')"
  shows "resample cm eng input r conv w =
           (Inl (Runtime_error ''Generated more output samples than expected!''), w')"
proof -
  have "new_size cm n r < output_frames_gen d'"
    using assms(6) by (rule signed_gt_imp_unsigned_gt)
  then show ?thesis
    using resample_engine_answer [OF assms(1-5)] by (simp add: error_handler_zero)
qed

lemma Resampler_process_result_bound:
  assumes "Resampler_process cm eng self input r eoi w = (Inr out, w')"
  shows "\<exists>gen tl. nd_shape out = gen # tl \<and> gen \<le> new_size cm (hd (nd_shape input)) r"
  using assms
  by (auto simp: Resampler_process_def Let_def output_array_def
      split: list.splits sum.splits if_splits prod.splits)

lemma resample_result_bound:
  assumes "resample cm eng input r conv w = (Inr out, w')"
  shows "\<exists>gen tl. nd_shape out = gen # tl \<and> gen \<le> new_size cm (hd (nd_shape input)) r"
  using assms
  by (auto simp: resample_def Let_def output_array_def
      split: list.splits sum.splits if_splits prod.splits)

lemma new_size_example: "new_size exact_ceil_mul 4 (3 / 2) = 10006"
  by (simp add: new_size_def exact_ceil_mul_def END_OF_INPUT_EXTRA_OUTPUT_FRAMES_def)

lemma input_channels_mono: "input_channels (NDArray [n]) = Inr 1"
  by (simp add: input_channels_def ndim_def)

text \<open>
  C6 (as stated, refuted). The engine answers an incremental request of 4 mono frames
  at ratio 3/2 (planned capacity 10006) with 20000 generated frames and status 1. The
  status is translated first (line 314, before the size check of line 317): the call
  fails with the \<open>ResamplingException\<close> for code 1, not with the
  \<^verbatim>\<open>std::runtime_error\<close> "Generated more output samples than expected!".
\<close>

theorem C6_status_first_counterexample:
  "new_size exact_ceil_mul 4 (3 / 2) < 20000 \<and>
   Resampler_process exact_ceil_mul (spy_engine 1 20000) mono_resampler (NDArray [4]) (3 / 2) False 0 =
     (Inl (ResamplingException ''Error reported by the engine.''), 1)"
  by (simp add: new_size_example Resampler_process_def input_channels_mono mono_resampler_def
      spy_engine_def error_handler_def stub_strerror_def)

text \<open>
  C6 (amended). For incremental \<open>process\<close> and for bulk \<open>resample\<close>: when the engine
  answers the request with status 0 and a frame count above the planned capacity, the
  call fails with the \<^verbatim>\<open>std::runtime_error\<close> "Generated more output samples than
  expected!" (a non-zero status is translated first and wins); and every result that
  is returned has a first extent, the generated frame count, of at most the planned
  capacity.
\<close>

theorem C6_capacity_guard:
  "(nd_shape input = n # rest \<and> input_channels input = Inr (rs_channels self) \<and>
    rs_channels self \<noteq> 0 \<and>
    src_process eng (rs_state self)
      (make_src_data n (new_size cm n r) (if eoi then 1 else 0) r) w = (0, d', w') \<and>
    uint (new_size cm n r) < sint (output_frames_gen d') \<longrightarrow>
    Resampler_process cm eng self input r eoi w =
      (Inl (Runtime_error ''Generated more output samples than expected!''), w')) \<and>
   (Resampler_process cm eng self input r eoi w = (Inr out, w2) \<longrightarrow>
    (\<exists>gen tl. nd_shape out = gen # tl \<and> gen \<le> new_size cm (hd (nd_shape input)) r)) \<and>
   (get_converter_type conv = Inr ct \<and> nd_shape input = n # rest \<and>
    input_channels input = Inr ch \<and> ch \<noteq> 0 \<and>
    src_simple eng (make_src_data n (new_size cm n r) 0 r) ct ch w = (0, d2, w3) \<and>
    uint (new_size cm n r) < sint (output_frames_gen d2) \<longrightarrow>
    resample cm eng input r conv w =
      (Inl (Runtime_error ''Generated more output samples than expected!''), w3)) \<and>
   (resample cm eng input r conv w = (Inr out2, w4) \<longrightarrow>
    (\<exists>gen tl. nd_shape out2 = gen # tl \<and> gen \<le> new_size cm (hd (nd_shape input)) r))"
  using Resampler_process_overflow [of input n rest self eng cm r eoi w d' w']
        Resampler_process_result_bound [of cm eng self input r eoi w out w2]
        resample_overflow [of conv ct input n rest ch eng cm r w d2 w3]
        resample_result_bound [of cm eng input r conv w out2 w4]
  by blast

text \<open>
  C6, witness: 4 mono frames at ratio 3/2 (planned capacity 10006); an engine that
  reports 20000 frames with status 0, and one that reports 5.
\<close>

theorem C6_capacity_guard_witness:
  "Resampler_process exact_ceil_mul (spy_engine 0 20000) mono_resampler (NDArray [4]) (3 / 2) False 0 =
     (Inl (Runtime_error ''Generated more output samples than expected!''), 1) \<and>
   resample exact_ceil_mul (spy_engine 0 20000) (NDArray [4]) (3 / 2) (PyStr ''sinc_best'') 0 =
     (Inl (Runtime_error ''Generated more output samples than expected!''), 1) \<and>
   Resampler_process exact_ceil_mul (spy_engine 0 5) mono_resampler (NDArray [4]) (3 / 2) False 0 =
     (Inr (NDArray [5]), 1) \<and>
   resample exact_ceil_mul (spy_engine 0 5) (NDArray [4]) (3 / 2) (PyStr ''sinc_best'') 0 =
     (Inr (NDArray [5]), 1) \<and>
   (\<exists>gen tl. nd_shape (NDArray [5]) = gen # tl \<and>
      gen \<le> new_size exact_ceil_mul (hd (nd_shape (NDArray [4]))) (3 / 2))"
proof -
  let ?d = "(make_src_data 4 (new_size exact_ceil_mul 4 (3 / 2)) 0 (3 / 2))\<lparr>output_frames_gen := 20000\<rparr>"
  have shape: "nd_shape (NDArray [4]) = 4 # []" by simp
  have ch: "input_channels (NDArray [4]) = Inr (rs_channels mono_resampler)"
    by (simp add: input_channels_mono mono_resampler_def)
  have nz: "rs_channels mono_resampler \<noteq> 0" by (simp add: mono_resampler_def)
  have ans: "src_process (spy_engine 0 20000) (rs_state mono_resampler)
      (make_src_data 4 (new_size exact_ceil_mul 4 (3 / 2)) (if False then 1 else 0) (3 / 2)) 0 = (0, ?d, 1)"
    by (simp add: spy_engine_def)
  have gt: "uint (new_size exact_ceil_mul 4 (3 / 2)) < sint (output_frames_gen ?d)"
    by (simp add: new_size_example)
  have conv: "get_converter_type (PyStr ''sinc_best'') = Inr 0"
    by (simp add: get_converter_type_def)
  have ch1: "input_channels (NDArray [4]) = Inr 1" "(1::cint) \<noteq> 0"
    by (simp_all add: input_channels_mono)
  have ans2: "src_simple (spy_engine 0 20000)
      (make_src_data 4 (new_size exact_ceil_mul 4 (3 / 2)) 0 (3 / 2)) 0 1 0 = (0, ?d, 1)"
    by (simp add: spy_engine_def)
  have p5: "Resampler_process exact_ceil_mul (spy_engine 0 5) mono_resampler (NDArray [4]) (3 / 2) False 0 =
     (Inr (NDArray [5]), 1)"
    by (simp add: Resampler_process_def input_channels_mono mono_resampler_def new_size_example
        spy_engine_def error_handler_def output_array_def ndim_def)
  have r5: "resample exact_ceil_mul (spy_engine 0 5) (NDArray [4]) (3 / 2) (PyStr ''sinc_best'') 0 =
     (Inr (NDArray [5]), 1)"
    by (simp add: resample_def conv input_channels_mono new_size_example
        spy_engine_def error_handler_def output_array_def ndim_def)
  note inst = C6_capacity_guard [where input = "NDArray [4]" and n = 4 and rest = "[]"
      and self = mono_resampler and eng = "spy_engine 0 20000" and cm = exact_ceil_mul
      and r = "3 / 2" and eoi = False and w = 0 and d' = ?d and w' = 1
      and conv = "PyStr ''sinc_best''" and ct = 0 and ch = 1 and ?d2.0 = ?d and ?w3.0 = 1]
  note inst5 = C6_capacity_guard [where input = "NDArray [4]" and self = mono_resampler
      and eng = "spy_engine 0 5" and cm = exact_ceil_mul and r = "3 / 2" and eoi = False
      and w = 0 and out = "NDArray [5]" and ?w2.0 = 1
      and conv = "PyStr ''sinc_best''" and ?out2.0 = "NDArray [5]" and ?w4.0 = 1]
  have a: "Resampler_process exact_ceil_mul (spy_engine 0 20000) mono_resampler (NDArray [4]) (3 / 2) False 0 =
     (Inl (Runtime_error ''Generated more output samples than expected!''), 1)"
    using inst shape ch nz ans gt by blast
  have b: "resample exact_ceil_mul (spy_engine 0 20000) (NDArray [4]) (3 / 2) (PyStr ''sinc_best'') 0 =
     (Inl (Runtime_error ''Generated more output samples than expected!''), 1)"
    using inst shape conv ch1 ans2 gt by blast
  have c: "\<exists>gen tl. nd_shape (NDArray [5]) = gen # tl \<and>
      gen \<le> new_size exact_ceil_mul (hd (nd_shape (NDArray [4]))) (3 / 2)"
    using inst5 p5 by blast
  have d: "\<exists>gen tl. nd_shape (NDArray [5]) = gen # tl \<and>
      gen \<le> new_size exact_ceil_mul (hd (nd_shape (NDArray [4]))) (3 / 2)"
    using inst5 r5 by blast
  show ?thesis using a b c d p5 r5 by blast
qed

section \<open>Theorems: shape validation of the incremental session\<close>

lemma ucast_eq_small:
  fixes c :: size_t and k :: cint
  assumes "unat c < 2 ^ 32" and "ucast c = k"
  shows "unat c = unat k"
proof -
  have "unat (ucast c :: cint) = take_bit 32 (unat c)"
    by (simp add: unsigned_ucast_eq)
  also have "\<dots> = unat c" using assms(1) by (simp add: take_bit_nat_eq_self)
  finally show ?thesis using assms(2) by simp
qed

text \<open>
  For every rank above 2, every zero channel count, every channel count below \<open>2^32\<close>
  that differs from the session's, and every rank-1 request on a session that is not
  mono, \<open>process\<close> fails with a \<^verbatim>\<open>std::domain_error\<close> and the engine state is untouched,
  whatever the engine is.
\<close>

lemma Resampler_process_rejects_shape:
  assumes "ndim input > 2 \<or>
     (ndim input = 2 \<and> (nd_shape input ! 1 = 0 \<or>
        (unat (nd_shape input ! 1) < 2 ^ 32 \<and> unat (nd_shape input ! 1) \<noteq> unat (rs_channels self)))) \<or>
     (ndim input = 1 \<and> rs_channels self \<noteq> 1)"
  shows "\<exists>msg. Resampler_process cm eng self input r eoi w = (Inl (Domain_error msg), w)"
proof (cases "nd_shape input")
  case Nil
  with assms show ?thesis by (simp add: ndim_def)
next
  case (Cons n rest)
  consider (a) "ndim input > 2" | (b) "ndim input = 2" "nd_shape input ! 1 = 0"
    | (c) "ndim input = 2" "unat (nd_shape input ! 1) < 2 ^ 32" "unat (nd_shape input ! 1) \<noteq> unat (rs_channels self)"
    | (d) "ndim input = 1" "rs_channels self \<noteq> 1"
    using assms by blast
  then show ?thesis
  proof cases
    case a
    then show ?thesis using Cons by (simp add: Resampler_process_def input_channels_def)
  next
    case b
    then show ?thesis using Cons by (simp add: Resampler_process_def input_channels_def)
  next
    case c
    then have "(ucast (nd_shape input ! 1) :: cint) \<noteq> rs_channels self"
      using ucast_eq_small by blast
    then show ?thesis using Cons c(1) by (simp add: Resampler_process_def input_channels_def)
  next
    case d
    then show ?thesis using Cons by (auto simp: Resampler_process_def input_channels_def)
  qed
qed

text \<open>
  C5 (the code at the failing input). A rank-2 request of shape (0, 4294967297) on a
  one-channel session: the second extent is narrowed to \<^verbatim>\<open>int\<close> (line 268) and becomes
  1, the channel check of line 272 passes although the channel count differs from the
  session's, and the engine is called (the spy's call count goes from 0 to 1).
\<close>

theorem C5_wide_channel_count_reaches_engine:
  "ndim (NDArray [0, 4294967297]) = 2 \<and>
   unat (nd_shape (NDArray [0, 4294967297]) ! 1) \<noteq> unat (rs_channels mono_resampler) \<and>
   Resampler_process exact_ceil_mul (spy_engine 0 0) mono_resampler (NDArray [0, 4294967297]) 1 False 0 =
     (Inr (NDArray [0, 1]), 1)"
  by (simp add: Resampler_process_def input_channels_def ndim_def mono_resampler_def
      make_src_data_def spy_engine_def error_handler_def output_array_def)

text \<open>C5, read off that evaluation: no exception, one engine call.\<close>

theorem C5_wide_channel_count_reaches_engine_witness:
  "(\<exists>out. fst (Resampler_process exact_ceil_mul (spy_engine 0 0) mono_resampler
             (NDArray [0, 4294967297]) 1 False 0) = Inr out) \<and>
   snd (Resampler_process exact_ceil_mul (spy_engine 0 0) mono_resampler
          (NDArray [0, 4294967297]) 1 False 0) = Suc 0"
  using C5_wide_channel_count_reaches_engine by simp

section \<open>Theorems: the bridge\<close>

lemma callback_fields:
  assumes "callback cb = (a, cb')"
  shows "cb_state cb' = cb_state cb" "cb_callback cb' = cb_callback cb"
    "cb_calls cb' = Suc (cb_calls cb)" "cb_callback_error_msg cb' = cb_callback_error_msg cb"
    "cb_ratio cb' = cb_ratio cb" "cb_converter_type cb' = cb_converter_type cb"
    "cb_channels cb' = cb_channels cb"
  using assms by (auto simp: callback_def Let_def split: py_input.splits if_splits)



lemma the_callback_func_msg:
  assumes "the_callback_func cb = (n, cb')"
  shows "cb_callback_error_msg cb' = cb_callback_error_msg cb \<or>
         (n = 0 \<and> cb_callback_error_msg cb' \<in>
            {''Input array should have at most 2 dimensions'',
             ''Invalid number of channels in input data.''})"
proof -
  obtain a cb1 where c: "callback cb = (a, cb1)" by (cases "callback cb")
  show ?thesis
    using assms c callback_fields(4) [OF c]
    by (auto simp: the_callback_func_def Let_def set_callback_error_def split: if_splits)
qed

lemma the_callback_func_msg_nonempty:
  assumes "the_callback_func cb = (n, cb')"
  shows "cb_callback_error_msg cb \<noteq> [] \<Longrightarrow> cb_callback_error_msg cb' \<noteq> []"
    and "cb_callback_error_msg cb' \<noteq> cb_callback_error_msg cb \<Longrightarrow> cb_callback_error_msg cb' \<noteq> []"
  using the_callback_func_msg [OF assms] by auto

lemma run_pull_msg_nonempty:
  "run_pull t cb = (n, w', cb') \<Longrightarrow> cb_callback_error_msg cb \<noteq> [] \<Longrightarrow>
   cb_callback_error_msg cb' \<noteq> []"
proof (induction t arbitrary: cb)
  case (Done m w)
  then show ?case by simp
next
  case (Pull k)
  obtain m cb1 where s: "the_callback_func cb = (m, cb1)" by (cases "the_callback_func cb")
  with Pull.prems have "run_pull (k m) cb1 = (n, w', cb')" by simp
  moreover have "cb_callback_error_msg cb1 \<noteq> []"
    using the_callback_func_msg_nonempty(1) [OF s] Pull.prems(2) .
  ultimately show ?case using Pull.IH by blast
qed

lemma run_pull_recorded:
  "run_pull t cb = (n, w', cb') \<Longrightarrow> bridge_recorded t cb \<Longrightarrow> cb_callback_error_msg cb' \<noteq> []"
proof (induction t arbitrary: cb)
  case (Done m w)
  then show ?case by simp
next
  case (Pull k)
  obtain m cb1 where s: "the_callback_func cb = (m, cb1)" by (cases "the_callback_func cb")
  with Pull.prems have r: "run_pull (k m) cb1 = (n, w', cb')" by simp
  from Pull.prems(2) s
  consider "cb_callback_error_msg cb1 \<noteq> cb_callback_error_msg cb" | "bridge_recorded (k m) cb1"
    by auto
  then show ?case
  proof cases
    case 1
    then have "cb_callback_error_msg cb1 \<noteq> []"
      using the_callback_func_msg_nonempty(2) [OF s] by blast
    then show ?thesis using run_pull_msg_nonempty [OF r] by blast
  next
    case 2
    then show ?thesis using Pull.IH r by blast
  qed
qed


section \<open>Theorems: the recorded input rank\<close>













section \<open>Evaluation of closed examples\<close>

text \<open>The definitions a closed example unfolds.\<close>

lemmas session_eval = CallbackResampler_read_def reopen_def read_body_def the_callback_func_def
  callback_def clear_callback_error_def set_callback_error_def spy_engine_def mono_session_def
  ndim_def error_handler_def Let_def CallbackResampler_create_def CallbackResampler_new_def
  get_converter_type_def CallbackResampler_exit_def CallbackResampler_destroy_def
  flaky_engine_def pull_twice_engine_def stub_strerror_def

section \<open>Theorems: pull-mode read\<close>

lemma read_via_body:
  assumes "reopen eng self w = (Inr u, self1, w1)"
  shows "CallbackResampler_read eng frames self w = read_body eng frames self1 w1"
  using assms by (simp add: CallbackResampler_read_def)

lemma read_body_result:
  assumes "run_pull (src_callback_read eng (cb_state self) (cb_ratio self) frames w)
             (clear_callback_error self) = (n, w', self')"
  shows "read_body eng frames self w =
     (if cb_callback_error_msg self' \<noteq> []
      then (Inl (Domain_error (cb_callback_error_msg self')), self', w')
      else case (if n = 0 then error_handler (src_strerror eng) (src_error eng (cb_state self') w')
                 else Inr ()) of
             Inl e \<Rightarrow> (Inl e, self', w')
           | Inr _ \<Rightarrow>
               if cb_channels self' = 1 \<and> cb_buffer_ndim self' = 1
               then (Inr (NDArray [n]), self', w')
               else (Inr (NDArray [n, cb_channels self']), self', w'))"
  using assms by (simp add: read_body_def Let_def clear_callback_error_def)

lemma read_deferred_error:
  assumes "reopen eng self w = (Inr u, self1, w1)"
    and "run_pull (src_callback_read eng (cb_state self1) (cb_ratio self1) frames w1)
           (clear_callback_error self1) = (n, w', self')"
    and "bridge_recorded (src_callback_read eng (cb_state self1) (cb_ratio self1) frames w1)
           (clear_callback_error self1)"
  shows "cb_callback_error_msg self' \<noteq> []"
    and "CallbackResampler_read eng frames self w =
           (Inl (Domain_error (cb_callback_error_msg self')), self', w')"
proof -
  show ne: "cb_callback_error_msg self' \<noteq> []"
    using run_pull_recorded [OF assms(2,3)] .
  show "CallbackResampler_read eng frames self w =
           (Inl (Domain_error (cb_callback_error_msg self')), self', w')"
    using read_via_body [OF assms(1)] read_body_result [OF assms(2)] ne by simp
qed










text \<open>C10\<close>

section \<open>Theorems: starting ratio\<close>

lemma set_starting_ratio_rejected:
  assumes "src_set_ratio eng (cb_state self) new_ratio w = (err, w')" and "err \<noteq> 0"
  shows "\<exists>e. CallbackResampler_set_starting_ratio eng new_ratio self w = (Inl e, self, w')"
proof -
  have "\<exists>e. error_handler (src_strerror eng) err = Inl e"
    using assms(2) error_handler_Inr_iff [of "src_strerror eng" err]
    by (cases "error_handler (src_strerror eng) err") auto
  then show ?thesis using assms(1) by (auto simp: CallbackResampler_set_starting_ratio_def)
qed

lemma set_starting_ratio_accepted:
  assumes "src_set_ratio eng (cb_state self) new_ratio w = (0, w')"
  shows "CallbackResampler_set_starting_ratio eng new_ratio self w =
           (Inr (), self\<lparr>cb_ratio := new_ratio\<rparr>, w')"
  using assms by (simp add: CallbackResampler_set_starting_ratio_def error_handler_zero)

text \<open>
  C10. When the engine answers \<^verbatim>\<open>src_set_ratio\<close> with a non-zero status,
  \<open>set_starting_ratio\<close> raises and leaves the whole session, and so its recorded ratio,
  as it was; when the engine answers 0, the recorded ratio becomes the new ratio.
\<close>

theorem C10_ratio_kept_on_rejection:
  "(src_set_ratio eng (cb_state self) new_ratio w = (err, w') \<and> err \<noteq> 0 \<longrightarrow>
      (\<exists>e. CallbackResampler_set_starting_ratio eng new_ratio self w = (Inl e, self, w')) \<and>
      cb_ratio (fst (snd (CallbackResampler_set_starting_ratio eng new_ratio self w))) = cb_ratio self) \<and>
   (src_set_ratio eng (cb_state self) new_ratio w = (0, w2) \<longrightarrow>
      CallbackResampler_set_starting_ratio eng new_ratio self w =
        (Inr (), self\<lparr>cb_ratio := new_ratio\<rparr>, w2))"
  using set_starting_ratio_rejected [of eng self new_ratio w err w']
        set_starting_ratio_accepted [of eng self new_ratio w w2]
  by auto

text \<open>C10, witness: an engine answering 6 and an engine answering 0.\<close>

theorem C10_ratio_kept_on_rejection_witness:
  "cb_ratio (fst (snd (CallbackResampler_set_starting_ratio (spy_engine 6 0) (- 2)
      (mono_session none_then_mono) 0))) = 1 \<and>
   CallbackResampler_set_starting_ratio (spy_engine 0 0) 2 (mono_session none_then_mono) 0 =
     (Inr (), (mono_session none_then_mono)\<lparr>cb_ratio := 2\<rparr>, 1)"
proof -
  let ?s = "mono_session none_then_mono"
  have h1: "src_set_ratio (spy_engine 6 0) (cb_state ?s) (- 2) 0 = (6, 1) \<and> (6 :: cint) \<noteq> 0"
    by (simp add: spy_engine_def)
  have h2: "src_set_ratio (spy_engine 0 0) (cb_state ?s) 2 0 = (0, 1)"
    by (simp add: spy_engine_def)
  have r: "cb_ratio ?s = 1" by (simp add: mono_session_def)
  show ?thesis
    using C10_ratio_kept_on_rejection [of "spy_engine 6 0" ?s "- 2" 0 6 1] h1
          C10_ratio_kept_on_rejection [of "spy_engine 0 0" ?s 2 0 _ _ 1] h2 r
    by simp
qed

section \<open>Theorems: scoped exit and lazy reopen\<close>











section \<open>Theorems: channel check of the bridge\<close>

lemma ucast_inj_small:
  fixes a b :: size_t
  assumes "unat a < 2 ^ 32" and "unat b < 2 ^ 32" and "(ucast a :: cint) = ucast b"
  shows "a = b"
proof -
  have "unat a = unat (ucast a :: cint)" using ucast_eq_small [OF assms(1)] by simp
  also have "\<dots> = unat b" using ucast_eq_small [OF assms(2)] assms(3) by simp
  finally show ?thesis by (simp add: word_unat_eq_iff)
qed

text \<open>
  For channel counts below \<open>2^32\<close> the bridge does what the spec says: a chunk of rank 1
  or 2 whose channel count is zero or differs from the session's makes the bridge
  store the channel message and report zero frames.
\<close>

lemma the_callback_func_mismatch:
  assumes "cb_callback cb (cb_calls cb) = PyArray a"
    and "ndim a = 1 \<or> ndim a = 2"
    and "chan = (if ndim a = 2 then nd_shape a ! 1 else 1)"
    and "chan = 0 \<or> (unat chan < 2 ^ 32 \<and> unat (cb_channels cb) < 2 ^ 32 \<and> chan \<noteq> cb_channels cb)"
  shows "\<exists>cb'. the_callback_func cb = (0, cb') \<and>
           cb_callback_error_msg cb' = ''Invalid number of channels in input data.''"
proof -
  have bad: "(ucast chan :: cint) \<noteq> ucast (cb_channels cb) \<or> chan = 0"
    using assms(4) ucast_inj_small by blast
  show ?thesis
    using assms(1-3) bad
    by (auto simp: the_callback_func_def callback_def Let_def set_callback_error_def)
qed

text \<open>
  And the \<open>read\<close> in which such a chunk is the first one the engine asks for raises the
  deferred error.
\<close>

lemma read_mismatched_first_chunk:
  assumes "reopen eng self w = (Inr u, self1, w1)"
    and "src_callback_read eng (cb_state self1) (cb_ratio self1) frames w1 = Pull k"
    and "cb_callback self1 (cb_calls self1) = PyArray a"
    and "ndim a = 1 \<or> ndim a = 2"
    and "chan = (if ndim a = 2 then nd_shape a ! 1 else 1)"
    and "chan = 0 \<or>
         (unat chan < 2 ^ 32 \<and> unat (cb_channels self1) < 2 ^ 32 \<and> chan \<noteq> cb_channels self1)"
  shows "\<exists>msg self' w'. msg \<noteq> [] \<and>
           CallbackResampler_read eng frames self w = (Inl (Domain_error msg), self', w')"
proof -
  let ?c = "clear_callback_error self1"
  have "cb_callback ?c (cb_calls ?c) = PyArray a" "cb_channels ?c = cb_channels self1"
    using assms(3) by (simp_all add: clear_callback_error_def)
  with the_callback_func_mismatch [of ?c a chan] assms(4-6)
  obtain cb' where step: "the_callback_func ?c = (0, cb')"
    and msg: "cb_callback_error_msg cb' = ''Invalid number of channels in input data.''"
    by auto
  have "cb_callback_error_msg ?c = []" by (simp add: clear_callback_error_def)
  with step msg have rec: "bridge_recorded (Pull k) ?c" by simp
  obtain n w' self' where run: "run_pull (Pull k) ?c = (n, w', self')" by (metis prod_cases3)
  show ?thesis
    using read_deferred_error [OF assms(1)] run rec assms(2) by metis
qed

text \<open>
  C2 (the code at the failing input). The producer of a one-channel session returns a
  chunk of shape (0, 4294967297). The bridge compares the channel count after
  narrowing it to \<^verbatim>\<open>int\<close> (line 587), where it is 1: no deferred error is stored, and
  the \<open>read\<close> returns a result instead of raising.
\<close>

theorem C2_wide_chunk_accepted:
  "the_callback_func (mono_session wide_chunks) =
     (0, (mono_session wide_chunks)
           \<lparr>cb_calls := 1, cb_current_buffer := NDArray [0, 4294967297], cb_buffer_ndim := 2\<rparr>) \<and>
   CallbackResampler_read (spy_engine 0 0) 512 (mono_session wide_chunks) 0 =
     (Inr (NDArray [0, 1]),
      (mono_session wide_chunks)
        \<lparr>cb_calls := 1, cb_current_buffer := NDArray [0, 4294967297], cb_buffer_ndim := 2\<rparr>, 1)"
  by (simp add: session_eval wide_chunks_def)

text \<open>C2, read off that evaluation: zero frames, an empty error slot, no exception.\<close>

theorem C2_wide_chunk_accepted_witness:
  "fst (the_callback_func (mono_session wide_chunks)) = 0 \<and>
   cb_callback_error_msg (snd (the_callback_func (mono_session wide_chunks))) = [] \<and>
   (\<exists>out. fst (CallbackResampler_read (spy_engine 0 0) 512 (mono_session wide_chunks) 0) = Inr out)"
  using C2_wide_chunk_accepted by (simp add: mono_session_def)

end
